theory Spec2Isabelle
  imports Main "HOL-Library.Multiset"
begin

section \<open>Python strings\<close>

text \<open>
  A Python \<^verbatim>\<open>str\<close> is a sequence of Unicode code points, and \<^verbatim>\<open>len\<close>, indexing and
  slicing count code points. A code point is a natural number here and a string a list of
  them; \<open>ustr\<close> writes an ASCII literal.

  The library functions of \<^verbatim>\<open>str\<close> and \<^verbatim>\<open>re\<close> that the program calls are modelled
  on ASCII letters and digits: \<open>lower\<close> maps \<^verbatim>\<open>A-Z\<close> to \<^verbatim>\<open>a-z\<close> and leaves every other code
  point alone, and a digit is one of \<^verbatim>\<open>0-9\<close>. Cased letters and decimal digits beyond ASCII
  are outside the model. The white space of \<^verbatim>\<open>str.strip\<close> and \<^verbatim>\<open>str.split\<close> is the full
  set of \<^verbatim>\<open>str.isspace\<close>. The strings are taken to be encodable in UTF-8 (no lone
  surrogate), as every string read from a UTF-8 file is.
\<close>

type_synonym ustr = "nat list"

definition ustr :: "string \<Rightarrow> ustr" where
  "ustr s = map of_char s"

definition lower_cp :: "nat \<Rightarrow> nat" where
  "lower_cp c = (if 65 \<le> c \<and> c \<le> 90 then c + 32 else c)"

definition lower :: "ustr \<Rightarrow> ustr" where
  "lower s = map lower_cp s"

definition is_space :: "nat \<Rightarrow> bool" where
  "is_space c \<longleftrightarrow>
     (9 \<le> c \<and> c \<le> 13) \<or> (28 \<le> c \<and> c \<le> 32) \<or> c = 133 \<or> c = 160 \<or> c = 5760 \<or>
     (8192 \<le> c \<and> c \<le> 8202) \<or> c = 8232 \<or> c = 8233 \<or> c = 8239 \<or> c = 8287 \<or> c = 12288"

definition is_digit :: "nat \<Rightarrow> bool" where
  "is_digit c \<longleftrightarrow> 48 \<le> c \<and> c \<le> 57"

text \<open>\<^verbatim>\<open>s.strip()\<close>: white space removed at both ends.\<close>

definition strip :: "ustr \<Rightarrow> ustr" where
  "strip s = rev (dropWhile is_space (rev (dropWhile is_space s)))"

text \<open>\<^verbatim>\<open>s.split(sep)\<close> for a one-character separator: at least one field, empty fields kept.\<close>

fun split_on :: "nat \<Rightarrow> ustr \<Rightarrow> ustr list" where
  "split_on sep [] = [[]]"
| "split_on sep (c # cs) =
     (if c = sep then [] # split_on sep cs
      else (case split_on sep cs of
              [] \<Rightarrow> [[c]]
            | f # fs \<Rightarrow> (c # f) # fs))"

text \<open>\<^verbatim>\<open>s.split()\<close>: the maximal runs of characters that are not white space.\<close>

fun split_ws_acc :: "ustr \<Rightarrow> ustr \<Rightarrow> ustr list" where
  "split_ws_acc cur [] = (if cur = [] then [] else [rev cur])"
| "split_ws_acc cur (c # cs) =
     (if is_space c then (if cur = [] then split_ws_acc [] cs else rev cur # split_ws_acc [] cs)
      else split_ws_acc (c # cur) cs)"

definition split_ws :: "ustr \<Rightarrow> ustr list" where
  "split_ws s = split_ws_acc [] s"

text \<open>\<^verbatim>\<open>sep.join(parts)\<close>.\<close>

fun join :: "ustr \<Rightarrow> ustr list \<Rightarrow> ustr" where
  "join sep [] = []"
| "join sep [p] = p"
| "join sep (p # q # ps) = p @ sep @ join sep (q # ps)"

text \<open>
  \<^verbatim>\<open>re.match(r'^\d+$', s)\<close> and \<^verbatim>\<open>re.match(r'^[a-z ]+$', s)\<close>. Without the MULTILINE flag
  \<^verbatim>\<open>$\<close> matches at the end of the string and also just before one final newline.
\<close>

definition match_plus :: "(nat \<Rightarrow> bool) \<Rightarrow> ustr \<Rightarrow> bool" where
  "match_plus cls s =
     (let t = (if s \<noteq> [] \<and> last s = 10 then butlast s else s)
      in t \<noteq> [] \<and> list_all cls t)"

definition match_digits :: "ustr \<Rightarrow> bool" where
  "match_digits s = match_plus is_digit s"

definition is_code_char :: "nat \<Rightarrow> bool" where
  "is_code_char c \<longleftrightarrow> (97 \<le> c \<and> c \<le> 122) \<or> c = 32"

definition match_code :: "ustr \<Rightarrow> bool" where
  "match_code s = match_plus is_code_char s"

text \<open>
  \<^verbatim>\<open>int(s)\<close> on a string: white space stripped, an optional sign, then decimal digits, where
  single underscores may stand between digits. \<open>None\<close> is ValueError. The conversion is
  unbounded (the digit limit that recent interpreters put on it is not modelled).
\<close>

definition digits_val :: "ustr \<Rightarrow> nat" where
  "digits_val ds = foldl (\<lambda>a c. 10 * a + (c - 48)) 0 ds"

fun int_body_ok :: "ustr \<Rightarrow> bool" where
  "int_body_ok [] = False"
| "int_body_ok [c] = is_digit c"
| "int_body_ok (c # d # cs) =
     (is_digit c \<and> (if d = 95 then cs \<noteq> [] \<and> int_body_ok cs else int_body_ok (d # cs)))"

definition py_int :: "ustr \<Rightarrow> int option" where
  "py_int s =
     (case strip s of
        [] \<Rightarrow> None
      | c # r \<Rightarrow>
          (let body = (if c = 43 \<or> c = 45 then r else c # r);
               sgn = (if c = 45 then - 1 else 1 :: int)
           in if int_body_ok body
              then Some (sgn * int (digits_val (filter (\<lambda>x. x \<noteq> 95) body)))
              else None))"

section \<open>The code table and its accessors\<close>

text \<open>
  \<^verbatim>\<open>char_codes: Dict[str, str]\<close>. The keys are strings, and a character is looked up as the
  string of length one that holds it.
\<close>

type_synonym code_table = "ustr \<rightharpoonup> ustr"

datatype py_error = IndexError | ValueError

definition x_code :: nat where
  "x_code = 120"

text \<open>\<^verbatim>\<open>get_first_code\<close>\<close>

definition get_first_code :: "nat \<Rightarrow> code_table \<Rightarrow> ustr" where
  "get_first_code char char_codes =
     (let code = (case char_codes [char] of None \<Rightarrow> [] | Some v \<Rightarrow> v)
      in if code \<noteq> [] then take 1 code else [x_code])"

text \<open>\<^verbatim>\<open>get_first_two_codes\<close>\<close>

definition get_first_two_codes :: "nat \<Rightarrow> code_table \<Rightarrow> ustr" where
  "get_first_two_codes char char_codes =
     (let code = (case char_codes [char] of None \<Rightarrow> [] | Some v \<Rightarrow> v)
      in if length code \<ge> 2 then lower (take 2 code)
         else if length code = 1 then lower code @ [x_code]
         else [x_code, x_code])"

section \<open>The encoding rules\<close>

text \<open>
  \<^verbatim>\<open>rule_standard_wubi\<close>. On the empty phrase the last branch reads \<^verbatim>\<open>phrase[0]\<close> and
  raises IndexError; in every other branch the indices are in range.
\<close>

definition rule_standard_wubi :: "ustr \<Rightarrow> code_table \<Rightarrow> py_error + ustr" where
  "rule_standard_wubi phrase char_codes =
     (let n = length phrase in
      if n = 1 then
        Inr (lower (case char_codes phrase of None \<Rightarrow> replicate 4 x_code | Some v \<Rightarrow> v))
      else if n = 2 then
        (let code1 = get_first_two_codes (phrase ! 0) char_codes;
             code2 = get_first_two_codes (phrase ! 1) char_codes
         in Inr (lower (take 4 (code1 @ code2))))
      else if n = 3 then
        (let code1 = get_first_code (phrase ! 0) char_codes;
             code2 = get_first_code (phrase ! 1) char_codes;
             code3 = get_first_two_codes (phrase ! 2) char_codes
         in Inr (lower (take 4 (code1 @ code2 @ code3))))
      else if n = 4 then
        Inr (lower (take 4 (concat (map (\<lambda>char. get_first_code char char_codes) phrase))))
      else if n = 0 then Inl IndexError
      else
        (let code1 = get_first_code (phrase ! 0) char_codes;
             code2 = get_first_code (phrase ! 1) char_codes;
             code3 = get_first_code (phrase ! 2) char_codes;
             code_last = get_first_code (last phrase) char_codes
         in Inr (lower (take 4 (code1 @ code2 @ code3 @ code_last)))))"

text \<open>\<^verbatim>\<open>rule_one_code_per_char\<close>\<close>

definition rule_one_code_per_char :: "ustr \<Rightarrow> code_table \<Rightarrow> py_error + ustr" where
  "rule_one_code_per_char phrase char_codes =
     (let n = length phrase in
      if n = 1 then
        Inr (lower (case char_codes phrase of None \<Rightarrow> replicate 4 x_code | Some v \<Rightarrow> v))
      else if n = 2 then
        (let code1 = get_first_two_codes (phrase ! 0) char_codes;
             code2 = get_first_two_codes (phrase ! 1) char_codes
         in Inr (lower (take 4 (code1 @ code2))))
      else if n = 3 then
        (let code1 = get_first_code (phrase ! 0) char_codes;
             code2 = get_first_code (phrase ! 1) char_codes;
             code3 = get_first_two_codes (phrase ! 2) char_codes
         in Inr (lower (take 4 (code1 @ code2 @ code3))))
      else
        Inr (lower (take 4 (concat (map (\<lambda>char. get_first_code char char_codes) phrase)))))"

text \<open>\<^verbatim>\<open>rule_first_two_chars_two_codes_rest_one\<close>\<close>

definition rule_first_two_chars_two_codes_rest_one :: "ustr \<Rightarrow> code_table \<Rightarrow> py_error + ustr" where
  "rule_first_two_chars_two_codes_rest_one phrase char_codes =
     (let n = length phrase in
      if n = 1 then
        Inr (lower (case char_codes phrase of None \<Rightarrow> replicate 4 x_code | Some v \<Rightarrow> v))
      else if n = 2 then
        (let code1 = get_first_two_codes (phrase ! 0) char_codes;
             code2 = get_first_two_codes (phrase ! 1) char_codes
         in Inr (lower (take 4 (code1 @ code2))))
      else
        (let parts0 = (if n \<ge> 1 then [get_first_two_codes (phrase ! 0) char_codes] else []);
             parts1 = (if n \<ge> 2 then parts0 @ [get_first_two_codes (phrase ! 1) char_codes]
                       else parts0);
             code_parts = parts1 @ map (\<lambda>i. get_first_code (phrase ! i) char_codes) [2..<n]
         in Inr (lower (take 4 (concat code_parts)))))"

text \<open>
  \<^verbatim>\<open>rule_all_two_codes\<close>: the loop over the characters carries the list \<^verbatim>\<open>codes\<close> and
  \<^verbatim>\<open>total_length\<close>, and leaves at the first character met with four units filled.
\<close>

fun all_two_loop :: "code_table \<Rightarrow> ustr list \<Rightarrow> nat \<Rightarrow> ustr \<Rightarrow> ustr list" where
  "all_two_loop char_codes codes total_length [] = codes"
| "all_two_loop char_codes codes total_length (char # rest) =
     (if total_length \<ge> 4 then codes
      else
        (let two_codes = get_first_two_codes char char_codes;
             remaining = 4 - total_length
         in if length two_codes \<le> remaining
            then all_two_loop char_codes (codes @ [two_codes])
                   (total_length + length two_codes) rest
            else all_two_loop char_codes (codes @ [take remaining two_codes])
                   (total_length + remaining) rest))"

definition rule_all_two_codes :: "ustr \<Rightarrow> code_table \<Rightarrow> py_error + ustr" where
  "rule_all_two_codes phrase char_codes =
     (let result = concat (all_two_loop char_codes [] 0 phrase);
          result = (if length result < 4
                    then result @ replicate (4 - length result) x_code else result)
      in Inr (lower (take 4 result)))"

text \<open>\<^verbatim>\<open>rule_free_coding\<close>\<close>

definition rule_free_coding :: "ustr \<Rightarrow> code_table \<Rightarrow> py_error + ustr" where
  "rule_free_coding phrase char_codes = Inr []"

text \<open>\<^verbatim>\<open>extract_chinese_chars\<close>: the code points U+4E00 to U+9FFF, in order.\<close>

definition is_chinese :: "nat \<Rightarrow> bool" where
  "is_chinese c \<longleftrightarrow> 19968 \<le> c \<and> c \<le> 40959"

definition extract_chinese_chars :: "ustr \<Rightarrow> ustr" where
  "extract_chinese_chars text = filter is_chinese text"

text \<open>
  \<^verbatim>\<open>get_pinyin_initials\<close>. The transliteration is the library pypinyin, a parameter here:
  \<open>pinyin cs\<close> is the joined first letters that \<^verbatim>\<open>lazy_pinyin\<close> gives for \<open>cs\<close>, and \<open>None\<close>
  when the library is not installed or raises.
\<close>

type_synonym pinyin_lib = "ustr \<Rightarrow> ustr option"

definition get_pinyin_initials :: "pinyin_lib \<Rightarrow> ustr \<Rightarrow> ustr" where
  "get_pinyin_initials pinyin text =
     (let chinese_chars = extract_chinese_chars text in
      if chinese_chars = [] then []
      else (case pinyin chinese_chars of None \<Rightarrow> [] | Some initials \<Rightarrow> lower initials))"

text \<open>\<^verbatim>\<open>rule_wubi_pinyin_initials\<close>\<close>

definition rule_wubi_pinyin_initials :: "pinyin_lib \<Rightarrow> ustr \<Rightarrow> code_table \<Rightarrow> py_error + ustr" where
  "rule_wubi_pinyin_initials pinyin phrase char_codes =
     (case rule_standard_wubi phrase char_codes of
        Inl e \<Rightarrow> Inl e
      | Inr wubi_code \<Rightarrow>
          (let pinyin_initials = get_pinyin_initials pinyin phrase
           in if pinyin_initials \<noteq> [] then Inr (wubi_code @ pinyin_initials)
              else Inr wubi_code))"

text \<open>\<^verbatim>\<open>generate_wubi_code\<close>\<close>

definition generate_wubi_code :: "pinyin_lib \<Rightarrow> ustr \<Rightarrow> code_table \<Rightarrow> int \<Rightarrow> py_error + ustr" where
  "generate_wubi_code pinyin phrase char_codes rule =
     (let code =
        (if rule = 1 then rule_standard_wubi phrase char_codes
         else if rule = 2 then rule_one_code_per_char phrase char_codes
         else if rule = 3 then rule_first_two_chars_two_codes_rest_one phrase char_codes
         else if rule = 4 then rule_all_two_codes phrase char_codes
         else if rule = 5 then rule_free_coding phrase char_codes
         else if rule = 6 then rule_wubi_pinyin_initials pinyin phrase char_codes
         else rule_standard_wubi phrase char_codes)
      in (case code of Inl e \<Rightarrow> Inl e | Inr c \<Rightarrow> Inr (lower c)))"

section \<open>The weight table\<close>

type_synonym weights = "ustr \<rightharpoonup> ustr"

text \<open>
  One line of the weight file, as the loop of \<^verbatim>\<open>read_phrase_weights\<close> reads it: the line
  is stripped, an empty line and a line with fewer than two tab-separated fields are
  skipped, the phrase is the first field and the weight string the stripped second field.
\<close>

definition parse_weight_line :: "ustr \<Rightarrow> (ustr \<times> ustr) option" where
  "parse_weight_line raw =
     (let line = strip raw in
      if line = [] then None
      else (let parts = split_on 9 line in
            if length parts \<ge> 2 then Some (parts ! 0, strip (parts ! 1)) else None))"

text \<open>
  The body of the loop for a parsed line. \<^verbatim>\<open>weight_int\<close> is 0 for a string that is not
  all digits; what is stored is always \<^verbatim>\<open>weight_str\<close>. A ValueError of
  \<^verbatim>\<open>int(weight_str)\<close> would leave the loop (\<open>Inl\<close>); the one of
  \<^verbatim>\<open>int(phrase_weights[phrase])\<close> is caught and the new string stored.
\<close>

definition store_weight :: "weights \<Rightarrow> ustr \<Rightarrow> ustr \<Rightarrow> py_error + weights" where
  "store_weight phrase_weights phrase weight_str =
     (case (if \<not> match_digits weight_str then Some 0 else py_int weight_str) of
        None \<Rightarrow> Inl ValueError
      | Some weight_int \<Rightarrow>
          (case phrase_weights phrase of
             Some stored \<Rightarrow>
               (case py_int stored of
                  Some existing_weight \<Rightarrow>
                    if weight_int > existing_weight
                    then Inr (phrase_weights(phrase \<mapsto> weight_str))
                    else Inr phrase_weights
                | None \<Rightarrow> Inr (phrase_weights(phrase \<mapsto> weight_str)))
           | None \<Rightarrow> Inr (phrase_weights(phrase \<mapsto> weight_str))))"

definition weight_line :: "weights \<Rightarrow> ustr \<Rightarrow> py_error + weights" where
  "weight_line phrase_weights raw =
     (case parse_weight_line raw of
        None \<Rightarrow> Inr phrase_weights
      | Some (phrase, weight_str) \<Rightarrow> store_weight phrase_weights phrase weight_str)"

text \<open>
  The loop over the lines of the file. An exception inside it is caught by the handler
  around the loop, which returns the dictionary built so far.
\<close>

fun weights_loop :: "weights \<Rightarrow> ustr list \<Rightarrow> weights" where
  "weights_loop phrase_weights [] = phrase_weights"
| "weights_loop phrase_weights (raw # rest) =
     (case weight_line phrase_weights raw of
        Inl e \<Rightarrow> phrase_weights
      | Inr phrase_weights' \<Rightarrow> weights_loop phrase_weights' rest)"

text \<open>
  \<^verbatim>\<open>read_phrase_weights\<close>. The argument is the content of the weight file, a list of lines,
  or \<open>None\<close> when the file does not exist or cannot be opened.
\<close>

definition read_phrase_weights :: "ustr list option \<Rightarrow> weights" where
  "read_phrase_weights file =
     (case file of None \<Rightarrow> Map.empty | Some lines \<Rightarrow> weights_loop Map.empty lines)"

text \<open>
  The integer values seen for a phrase in a list of lines, and the weight strings that
  carry them.
\<close>

definition observed_strings :: "ustr \<Rightarrow> ustr list \<Rightarrow> ustr list" where
  "observed_strings phrase lines =
     List.map_filter
       (\<lambda>raw. case parse_weight_line raw of
                 None \<Rightarrow> None
               | Some (q, w) \<Rightarrow> if q = phrase then Some w else None)
       lines"

definition observed_values :: "ustr \<Rightarrow> ustr list \<Rightarrow> int list" where
  "observed_values phrase lines = List.map_filter py_int (observed_strings phrase lines)"

text \<open>The integer a weight string counts as in the comparison of the loop.\<close>

definition weight_of :: "ustr \<Rightarrow> int" where
  "weight_of w = (if match_digits w then the (py_int w) else 0)"

section \<open>The dictionary and the fail file\<close>

text \<open>
  The two files the program appends to, each the text it holds, character by character
  (newline is the code point 10), and whether each can be opened for writing:
  \<^verbatim>\<open>open(name, 'a')\<close> raises when it cannot. An append adds its characters at the end of
  the text, whether or not the text ends with a newline. Reading the files is taken to
  succeed.
\<close>

record files =
  dict_file :: ustr
  fail_file :: ustr
  dict_writable :: bool
  fail_writable :: bool

text \<open>
  The lines that \<^verbatim>\<open>for line in f\<close> gives for a text opened in text mode. The reader
  turns \<^verbatim>\<open>\r\n\<close> and a lone \<^verbatim>\<open>\r\<close> into \<^verbatim>\<open>\n\<close> (the flag says that the character before
  was \<^verbatim>\<open>\r\<close>), and a line ends at each \<^verbatim>\<open>\n\<close>; the last line may lack one. The lines are
  held without their newline: every use of a line in the program strips it.
\<close>

fun translate_newlines :: "bool \<Rightarrow> ustr \<Rightarrow> ustr" where
  "translate_newlines after_cr [] = []"
| "translate_newlines after_cr (c # cs) =
     (if c = 13 then 10 # translate_newlines True cs
      else if c = 10 then
        (if after_cr then translate_newlines False cs else 10 # translate_newlines False cs)
      else c # translate_newlines False cs)"

fun split_lines :: "ustr \<Rightarrow> ustr list" where
  "split_lines [] = []"
| "split_lines (c # cs) =
     (if c = 10 then [] # split_lines cs
      else (case split_lines cs of
              [] \<Rightarrow> [[c]]
            | l # ls \<Rightarrow> (c # l) # ls))"

definition file_lines :: "ustr \<Rightarrow> ustr list" where
  "file_lines text = split_lines (translate_newlines False text)"

text \<open>The files together with the set \<^verbatim>\<open>existing_phrases\<close> held in memory.\<close>

record store = files +
  existing_phrases :: "ustr set"

text \<open>\<^verbatim>\<open>read_existing_entries\<close>: the first tab-separated field of every non-blank line.\<close>

definition read_existing_entries :: "ustr \<Rightarrow> ustr set" where
  "read_existing_entries text =
     set (List.map_filter
            (\<lambda>raw. let line = strip raw in
                    if line \<noteq> [] then
                      (case split_on 9 line of [] \<Rightarrow> None | phrase # _ \<Rightarrow> Some phrase)
                    else None)
            (file_lines text))"

text \<open>
  \<^verbatim>\<open>clean_output_file\<close> on the text of a file: the lines that are not blank are written
  back, each with a newline.
\<close>

definition clean_output_file :: "ustr \<Rightarrow> ustr" where
  "clean_output_file text =
     concat (map (\<lambda>line. line @ [10]) (filter (\<lambda>line. strip line \<noteq> []) (file_lines text)))"

text \<open>The line \<^verbatim>\<open>f"{phrase}\t{code}\t{weight}\n"\<close>, without its newline.\<close>

definition entry_line :: "ustr \<Rightarrow> ustr \<Rightarrow> ustr \<Rightarrow> ustr" where
  "entry_line phrase code weight = phrase @ [9] @ code @ [9] @ weight"

text \<open>\<^verbatim>\<open>Config.DEFAULT_WEIGHT\<close>\<close>

definition DEFAULT_WEIGHT :: ustr where
  "DEFAULT_WEIGHT = ustr ''100''"

text \<open>
  The weight written with an entry: the stored weight of the phrase as given, the default
  when there is none or when it is not all digits.
\<close>

definition entry_weight :: "weights \<Rightarrow> ustr \<Rightarrow> ustr" where
  "entry_weight phrase_weights phrase =
     (let weight = (case phrase_weights phrase of None \<Rightarrow> DEFAULT_WEIGHT | Some w \<Rightarrow> w)
      in if \<not> match_digits weight then DEFAULT_WEIGHT else weight)"

text \<open>\<^verbatim>\<open>check_all_chars_exist\<close>\<close>

definition check_all_chars_exist :: "ustr \<Rightarrow> code_table \<Rightarrow> bool" where
  "check_all_chars_exist phrase char_codes =
     (let chinese_chars = extract_chinese_chars phrase in
      if chinese_chars = [] then False
      else list_all (\<lambda>char. char_codes [char] \<noteq> None) chinese_chars)"

section \<open>The pipeline for one phrase\<close>

text \<open>
  What \<^verbatim>\<open>interactive_single_input\<close> returns: \<^verbatim>\<open>(True, code)\<close> is \<open>Added code\<close>; the
  others are \<^verbatim>\<open>(False, reason)\<close> with the reason, in the order of the constructors, the
  string for "already exists", "contains uncoded characters", "contains no Chinese
  character", "user cancelled", the text of an exception of \<^verbatim>\<open>input\<close>, and the text of
  an exception of the write. \<open>Raised\<close> is an exception that the function does not catch.
\<close>

datatype outcome =
    Added ustr
  | Skipped_AlreadyExists
  | Rejected_UncodeableChars
  | Rejected_NoCodeableChars
  | Rejected_UserCancelled
  | Rejected_InputError
  | Rejected_WriteError
  | Raised py_error

text \<open>
  The console input of a run, one event for each call of \<^verbatim>\<open>input\<close>: a typed line, a
  KeyboardInterrupt, or another exception. At the end of the input \<^verbatim>\<open>input\<close> raises
  EOFError, an exception of the last kind.
\<close>

datatype input_event = Typed ustr | CtrlC | InputFails

record session = store +
  stdin :: "input_event list"

text \<open>
  The prompt loop of rule 5: an empty or ill-formed code is asked again; \<open>Inr code\<close> is the
  accepted code, with its words joined by single spaces.
\<close>

fun prompt_code :: "input_event list \<Rightarrow> (outcome + ustr) \<times> input_event list" where
  "prompt_code [] = (Inl Rejected_InputError, [])"
| "prompt_code (CtrlC # rest) = (Inl Rejected_UserCancelled, rest)"
| "prompt_code (InputFails # rest) = (Inl Rejected_InputError, rest)"
| "prompt_code (Typed typed # rest) =
     (let user_code = strip typed in
      if user_code = [] then prompt_code rest
      else (let user_code = lower user_code in
            if \<not> match_code user_code then prompt_code rest
            else (Inr (join [32] (split_ws user_code)), rest)))"

text \<open>\<^verbatim>\<open>interactive_single_input\<close>\<close>

definition interactive_single_input ::
  "pinyin_lib \<Rightarrow> ustr \<Rightarrow> int \<Rightarrow> code_table \<Rightarrow> weights \<Rightarrow> session \<Rightarrow> outcome \<times> session" where
  "interactive_single_input pinyin phrase rule char_codes phrase_weights s =
     (if phrase \<in> existing_phrases s then (Skipped_AlreadyExists, s)
      else if rule \<noteq> 5 \<and> rule \<noteq> 6 \<and> \<not> check_all_chars_exist phrase char_codes
      then (Rejected_UncodeableChars, s)
      else
        (let (obtained, s1) =
           (if rule = 5 then
              (case prompt_code (stdin s) of (r, rest) \<Rightarrow> (r, s\<lparr>stdin := rest\<rparr>))
            else
              (let chinese_chars = extract_chinese_chars phrase in
               if chinese_chars = [] then (Inl Rejected_NoCodeableChars, s)
               else (case generate_wubi_code pinyin chinese_chars char_codes rule of
                       Inl e \<Rightarrow> (Inl (Raised e), s)
                     | Inr code \<Rightarrow> (Inr code, s))))
         in case obtained of
              Inl rejected \<Rightarrow> (rejected, s1)
            | Inr code \<Rightarrow>
                (let weight = entry_weight phrase_weights phrase in
                 if dict_writable s1
                 then (Added code,
                       s1\<lparr>dict_file := dict_file s1 @ entry_line phrase code weight @ [10],
                          existing_phrases := insert phrase (existing_phrases s1)\<rparr>)
                 else (Rejected_WriteError, s1))))"


section \<open>Batch mode\<close>

text \<open>The reason of a fail record, in the order of the three strings of the source.\<close>

datatype fail_reason = No_Chinese_Chars | Uncoded_Chars | File_Write_Error

record batch_state = store +
  existing_fail_phrases :: "ustr set"
  total_lines :: nat
  added_count :: nat
  fail_count :: nat
  skipped_count :: nat
  success_records :: "(ustr \<times> ustr \<times> ustr) list"
  fail_records :: "(ustr \<times> fail_reason) list"

text \<open>
  The block that appends a line to the fail file and counts it; when the fail file cannot
  be written the exception is printed and nothing changes.
\<close>

definition write_fail :: "ustr \<Rightarrow> fail_reason \<Rightarrow> batch_state \<Rightarrow> batch_state" where
  "write_fail line reason st =
     (if fail_writable st
      then st\<lparr>fail_file := fail_file st @ line @ [10],
              fail_count := fail_count st + 1,
              existing_fail_phrases := insert line (existing_fail_phrases st),
              fail_records := fail_records st @ [(line, reason)]\<rparr>
      else st)"

text \<open>
  The body of the loop of \<^verbatim>\<open>file_batch_mode\<close> for one line of the input file. \<open>Inl\<close> is an
  exception that leaves the loop.
\<close>

definition batch_item ::
  "pinyin_lib \<Rightarrow> int \<Rightarrow> code_table \<Rightarrow> weights \<Rightarrow> ustr \<Rightarrow> batch_state \<Rightarrow> py_error + batch_state" where
  "batch_item pinyin rule char_codes phrase_weights raw st0 =
     (let line = strip raw;
          st = st0\<lparr>total_lines := total_lines st0 + 1\<rparr>
      in
      if line = [] then Inr st
      else if line \<in> existing_phrases st then Inr (st\<lparr>skipped_count := skipped_count st + 1\<rparr>)
      else if line \<in> existing_fail_phrases st
      then Inr (st\<lparr>skipped_count := skipped_count st + 1\<rparr>)
      else if rule = 6 \<and> extract_chinese_chars line = []
      then Inr (write_fail line No_Chinese_Chars st)
      else if rule \<noteq> 6 \<and> \<not> check_all_chars_exist line char_codes
      then Inr (write_fail line Uncoded_Chars st)
      else
        (let chinese_chars = extract_chinese_chars line in
         if chinese_chars = []
         then Inr (st\<lparr>fail_count := fail_count st + 1,
                      fail_records := fail_records st @ [(line, No_Chinese_Chars)]\<rparr>)
         else
           (case generate_wubi_code pinyin chinese_chars char_codes rule of
              Inl e \<Rightarrow> Inl e
            | Inr code \<Rightarrow>
                (let weight = entry_weight phrase_weights line in
                 if dict_writable st
                 then Inr (st\<lparr>dict_file := dict_file st @ entry_line line code weight @ [10],
                              added_count := added_count st + 1,
                              existing_phrases := insert line (existing_phrases st),
                              success_records := success_records st @ [(line, code, weight)]\<rparr>)
                 else Inr (write_fail line File_Write_Error st)))))"

fun batch_loop ::
  "pinyin_lib \<Rightarrow> int \<Rightarrow> code_table \<Rightarrow> weights \<Rightarrow> batch_state \<Rightarrow> ustr list
     \<Rightarrow> py_error option \<times> batch_state" where
  "batch_loop pinyin rule char_codes phrase_weights st [] = (None, st)"
| "batch_loop pinyin rule char_codes phrase_weights st (raw # rest) =
     (case batch_item pinyin rule char_codes phrase_weights raw st of
        Inl e \<Rightarrow> (Some e, st)
      | Inr st' \<Rightarrow> batch_loop pinyin rule char_codes phrase_weights st' rest)"

text \<open>
  How \<^verbatim>\<open>file_batch_mode\<close> ends: with the message that rule 5 has no batch mode, with the
  report of a finished run, or in the handler of an exception. The first and the last
  return the counts 0 and 0.
\<close>

datatype batch_exit = Rule5_Unsupported | Completed | Processing_Error

text \<open>
  \<^verbatim>\<open>file_batch_mode\<close>. \<open>input_file\<close> is the list of the lines of the input file as
  \<^verbatim>\<open>readlines\<close> gives them, or \<open>None\<close> when the file cannot be read; \<open>record_ok\<close> says
  whether the record file of the run can be written. The
  result is the way out, \<^verbatim>\<open>added_count\<close> and \<^verbatim>\<open>fail_count\<close> as returned, and the files.
\<close>

definition file_batch_mode ::
  "pinyin_lib \<Rightarrow> int \<Rightarrow> code_table \<Rightarrow> weights \<Rightarrow> ustr list option \<Rightarrow> bool \<Rightarrow> files
     \<Rightarrow> (batch_exit \<times> nat \<times> nat) \<times> files" where
  "file_batch_mode pinyin rule char_codes phrase_weights input_file record_ok fs =
     (if rule = 5 then ((Rule5_Unsupported, 0, 0), fs)
      else
        (let init = \<lparr>dict_file = dict_file fs, fail_file = fail_file fs,
                     dict_writable = dict_writable fs, fail_writable = fail_writable fs,
                     existing_phrases = read_existing_entries (dict_file fs),
                     existing_fail_phrases =
                       set (filter (\<lambda>line. line \<noteq> [])
                              (map strip (file_lines (fail_file fs)))),
                     total_lines = 0, added_count = 0, fail_count = 0, skipped_count = 0,
                     success_records = [], fail_records = []\<rparr>
         in case input_file of
              None \<Rightarrow> ((Processing_Error, 0, 0), fs)
            | Some lines \<Rightarrow>
                (case batch_loop pinyin rule char_codes phrase_weights init lines of
                   (Some e, st) \<Rightarrow>
                     ((Processing_Error, 0, 0),
                      \<lparr>dict_file = dict_file st, fail_file = fail_file st,
                       dict_writable = dict_writable st, fail_writable = fail_writable st\<rparr>)
                 | (None, st) \<Rightarrow>
                     (let cleaned =
                        \<lparr>dict_file = (if added_count st > 0 \<and> dict_writable st
                                       then clean_output_file (dict_file st) else dict_file st),
                         fail_file = (if fail_count st > 0 \<and> fail_writable st
                                       then clean_output_file (fail_file st) else fail_file st),
                         dict_writable = dict_writable st, fail_writable = fail_writable st\<rparr>
                      in if record_ok
                         then ((Completed, added_count st, fail_count st), cleaned)
                         else ((Processing_Error, 0, 0), cleaned)))))"

section \<open>Properties of the encoding rules\<close>

lemma lower_lower: "lower (lower s) = lower s"
  by (simp add: lower_def lower_cp_def)

lemma lower_take: "lower (take n s) = take n (lower s)"
  by (simp add: lower_def take_map)

lemma lower_append: "lower (a @ b) = lower a @ lower b"
  by (simp add: lower_def)

lemma length_lower: "length (lower s) = length s"
  by (simp add: lower_def)

lemma lower_concat: "lower (concat xs) = concat (map lower xs)"
  by (induction xs) (simp_all add: lower_def)

lemma lower_x: "lower [x_code] = [x_code]" "lower [x_code, x_code] = [x_code, x_code]"
  "lower (replicate n x_code) = replicate n x_code"
  by (simp_all add: lower_def lower_cp_def x_code_def)

lemma lower_first_two: "lower (get_first_two_codes c t) = get_first_two_codes c t"
  by (simp add: get_first_two_codes_def Let_def lower_lower lower_append lower_x)

lemma length_first_two: "length (get_first_two_codes c t) = 2"
  by (auto simp add: get_first_two_codes_def Let_def length_lower split: option.splits)

lemma rule_standard_wubi_lower: "rule_standard_wubi p t = Inr c \<Longrightarrow> lower c = c"
  by (auto simp add: rule_standard_wubi_def Let_def lower_lower split: if_splits)

lemma all_two_loop_concat:
  "n = length (concat codes) \<Longrightarrow> n \<le> 4 \<Longrightarrow>
   concat (all_two_loop t codes n p) =
     take 4 (concat codes @ concat (map (\<lambda>c. get_first_two_codes c t) p))"
proof (induction p arbitrary: codes n)
  case Nil
  then show ?case by simp
next
  case (Cons c p)
  show ?case
  proof (cases "n \<ge> 4")
    case True
    with Cons.prems show ?thesis by simp
  next
    case False
    note lt = this
    show ?thesis
    proof (cases "2 \<le> 4 - n")
      case True
      have "concat (all_two_loop t (codes @ [get_first_two_codes c t]) (n + 2) p) =
            take 4 (concat (codes @ [get_first_two_codes c t]) @
                    concat (map (\<lambda>c. get_first_two_codes c t) p))"
        using Cons.prems True by (intro Cons.IH) (simp_all add: length_first_two)
      with lt True show ?thesis by (simp add: Let_def length_first_two)
    next
      case False
      with lt Cons.prems have tot: "n = 3" by simp
      have "concat (all_two_loop t (codes @ [take 1 (get_first_two_codes c t)]) (n + 1) p) =
            take 4 (concat (codes @ [take 1 (get_first_two_codes c t)]) @
                    concat (map (\<lambda>c. get_first_two_codes c t) p))"
        using Cons.prems tot by (intro Cons.IH) (simp_all add: length_first_two)
      with tot Cons.prems show ?thesis by (simp add: Let_def length_first_two)
    qed
  qed
qed

lemma rule_all_two_codes_closed:
  "rule_all_two_codes p t =
     Inr (take 4 (concat (map (\<lambda>c. get_first_two_codes c t) p) @ replicate 4 x_code))"
proof -
  let ?fs = "concat (map (\<lambda>c. get_first_two_codes c t) p)"
  have c: "concat (all_two_loop t [] 0 p) = take 4 ?fs"
    using all_two_loop_concat [of 0 "[]" t p] by simp
  have l: "lower ?fs = ?fs"
    by (simp add: lower_concat comp_def lower_first_two)
  show ?thesis
  proof (cases "length ?fs < 4")
    case True
    then have "lower (take 4 (?fs @ replicate (4 - length ?fs) x_code)) =
               take 4 (?fs @ replicate 4 x_code)"
      by (simp add: lower_take lower_append lower_x l)
    with True show ?thesis
      unfolding rule_all_two_codes_def Let_def c by simp
  next
    case False
    then have "lower (take 4 (take 4 ?fs)) = take 4 (?fs @ replicate 4 x_code)"
      by (simp add: lower_take l)
    with False show ?thesis
      unfolding rule_all_two_codes_def Let_def c by simp
  qed
qed

text \<open>
  C9. Rule 4 takes the first two codes of each character in turn until four units are
  filled, cuts the last contribution that would go past four, and pads with \<^verbatim>\<open>x\<close> on the
  right: for every phrase and every table it returns the first four units of the
  concatenated first-two codes followed by \<^verbatim>\<open>xxxx\<close>, a code of exactly four characters.
  A single character whose stored code is \<^verbatim>\<open>a\<close> gives \<^verbatim>\<open>axxx\<close>.
\<close>

theorem rule_all_two_codes_four:
  "(\<exists>r. rule_all_two_codes phrase tbl = Inr r \<and> length r = 4 \<and>
        r = take 4 (concat (map (\<lambda>c. get_first_two_codes c tbl) phrase) @ replicate 4 x_code)) \<and>
   (tbl [c] = Some (ustr ''a'') \<longrightarrow> rule_all_two_codes [c] tbl = Inr (ustr ''axxx''))"
proof -
  have "length (take 4 (concat (map (\<lambda>c. get_first_two_codes c tbl) phrase) @
          replicate 4 x_code)) = 4"
    by simp
  moreover have "tbl [c] = Some (ustr ''a'') \<longrightarrow> rule_all_two_codes [c] tbl = Inr (ustr ''axxx'')"
    by (simp add: rule_all_two_codes_closed get_first_two_codes_def ustr_def lower_def
        lower_cp_def x_code_def eval_nat_numeral)
  ultimately show ?thesis
    by (simp only: rule_all_two_codes_closed) blast
qed

text \<open>
  C9 at a concrete table: the character U+6253 with the stored code \<^verbatim>\<open>a\<close>.
\<close>

theorem rule_all_two_codes_four_witness:
  "rule_all_two_codes [25171] (Map.empty([25171] \<mapsto> ustr ''a'')) = Inr (ustr ''axxx'')"
  using rule_all_two_codes_four [of "[25171]" "Map.empty([25171] \<mapsto> ustr ''a'')" 25171,
      THEN conjunct2]
  by simp

text \<open>
  C1, as the code has it. On a phrase of one character rule 1 returns the stored code of
  the character in lower case and does not pad it: for a stored code of at most four
  ASCII characters the result has the length of the stored code, so at most four. A
  character without a stored code gives \<^verbatim>\<open>xxxx\<close>.
\<close>

theorem rule_standard_wubi_single:
  "(tbl [c] = None \<longrightarrow> rule_standard_wubi [c] tbl = Inr (ustr ''xxxx'')) \<and>
   (tbl [c] = Some code \<and> length code \<le> 4 \<and> (\<forall>x\<in>set code. x < 128) \<longrightarrow>
      rule_standard_wubi [c] tbl = Inr (lower code) \<and>
      length (lower code) = length code \<and> length (lower code) \<le> 4)"
  by (simp add: rule_standard_wubi_def length_lower)
     (simp add: lower_def lower_cp_def x_code_def ustr_def eval_nat_numeral)

text \<open>
  C1 at a concrete table: a stored code of three characters comes back with three
  characters, and a character that is not in the table gives \<^verbatim>\<open>xxxx\<close>.
\<close>

theorem rule_standard_wubi_single_witness:
  "rule_standard_wubi [25171] (Map.empty([25171] \<mapsto> ustr ''RNb'')) = Inr (ustr ''rnb'') \<and>
   rule_standard_wubi [25172] (Map.empty([25171] \<mapsto> ustr ''RNb'')) = Inr (ustr ''xxxx'')"
  using rule_standard_wubi_single [of "Map.empty([25171] \<mapsto> ustr ''RNb'')" 25171 "ustr ''RNb''"]
    rule_standard_wubi_single [of "Map.empty([25171] \<mapsto> ustr ''RNb'')" 25172 "[]"]
  by (simp add: ustr_def lower_def lower_cp_def)

text \<open>
  C1 as stated fails: a character whose stored code is \<^verbatim>\<open>a\<close> is encoded by rule 1 as
  \<^verbatim>\<open>a\<close>, a code of length one, not four.
\<close>

theorem rule_standard_wubi_single_not_padded:
  "rule_standard_wubi [25171] (Map.empty([25171] \<mapsto> ustr ''a'')) = Inr (ustr ''a'') \<and>
   length (ustr ''a'') \<noteq> 4"
  by (simp add: rule_standard_wubi_def ustr_def lower_def lower_cp_def)

text \<open>
  C8. On a phrase of two characters rule 1 returns the first two codes of the first
  character followed by the first two codes of the second, cut to four characters. Two
  characters with the stored codes \<^verbatim>\<open>abcd\<close> and \<^verbatim>\<open>efgh\<close> give \<^verbatim>\<open>abef\<close>.
\<close>

theorem rule_standard_wubi_two:
  "rule_standard_wubi [c1, c2] tbl =
     Inr (take 4 (get_first_two_codes c1 tbl @ get_first_two_codes c2 tbl)) \<and>
   (tbl [c1] = Some (ustr ''abcd'') \<and> tbl [c2] = Some (ustr ''efgh'') \<longrightarrow>
      rule_standard_wubi [c1, c2] tbl = Inr (ustr ''abef''))"
  by (simp add: rule_standard_wubi_def Let_def lower_take lower_append lower_first_two)
     (simp add: get_first_two_codes_def ustr_def lower_def lower_cp_def)

text \<open>
  C8 at a concrete table.
\<close>

theorem rule_standard_wubi_two_witness:
  "rule_standard_wubi [25171, 23383]
     (Map.empty([25171] \<mapsto> ustr ''abcd'', [23383] \<mapsto> ustr ''efgh'')) = Inr (ustr ''abef'')"
  using rule_standard_wubi_two [of 25171 23383
      "Map.empty([25171] \<mapsto> ustr ''abcd'', [23383] \<mapsto> ustr ''efgh'')", THEN conjunct2]
  by simp

text \<open>
  C10. For a rule number outside 1 to 6, \<^verbatim>\<open>generate_wubi_code\<close> returns what rule 1
  returns for the same phrase and table, the IndexError on the empty phrase included.
\<close>

theorem generate_wubi_code_fallback:
  "rule < 1 \<or> 6 < rule \<Longrightarrow>
   generate_wubi_code pinyin phrase tbl rule = rule_standard_wubi phrase tbl"
  by (cases "rule_standard_wubi phrase tbl")
     (auto simp add: generate_wubi_code_def rule_standard_wubi_lower)

text \<open>
  C10 at the rule numbers 7 and -2.
\<close>

theorem generate_wubi_code_fallback_witness:
  "generate_wubi_code (\<lambda>s. None) [25171, 23383]
     (Map.empty([25171] \<mapsto> ustr ''abcd'', [23383] \<mapsto> ustr ''efgh'')) 7 = Inr (ustr ''abef'') \<and>
   generate_wubi_code (\<lambda>s. None) [] Map.empty (- 2) = Inl IndexError"
  using generate_wubi_code_fallback [of 7 "\<lambda>s. None" "[25171, 23383]"
      "Map.empty([25171] \<mapsto> ustr ''abcd'', [23383] \<mapsto> ustr ''efgh'')"]
    generate_wubi_code_fallback [of "- 2" "\<lambda>s. None" "[]" Map.empty]
  by (simp add: rule_standard_wubi_def get_first_two_codes_def ustr_def lower_def lower_cp_def)

section \<open>Properties of the weight table\<close>

lemma not_space_digit: "is_digit c \<Longrightarrow> \<not> is_space c"
  by (auto simp add: is_digit_def is_space_def)

lemma strip_digits:
  assumes "t \<noteq> []" "list_all is_digit t" "\<forall>c\<in>set ws. is_space c"
  shows "strip (t @ ws) = t"
proof -
  obtain a r where t: "t = a # r" using assms(1) by (cases t) auto
  have d1: "dropWhile is_space (t @ ws) = t @ ws"
    using assms(2) by (simp add: t not_space_digit)
  obtain b q where rt: "rev t = b # q" using assms(1) by (cases "rev t") auto
  then have "b \<in> set t" by (metis list.set_intros(1) set_rev)
  then have nb: "\<not> is_space b" using assms(2) by (auto simp add: list_all_iff not_space_digit)
  have "dropWhile is_space (rev ws @ rev t) = dropWhile is_space (rev t)"
    using assms(3) by (intro dropWhile_append2) simp
  also have "\<dots> = rev t" using nb by (simp add: rt)
  finally show ?thesis by (simp add: strip_def d1)
qed

lemma int_body_ok_digits: "t \<noteq> [] \<Longrightarrow> list_all is_digit t \<Longrightarrow> int_body_ok t"
  by (induction t rule: int_body_ok.induct) (auto simp add: is_digit_def)

lemma filter_digits: "list_all is_digit t \<Longrightarrow> filter (\<lambda>x. x \<noteq> 95) t = t"
  by (induction t) (auto simp add: is_digit_def)

lemma py_int_digits:
  assumes "t \<noteq> []" "list_all is_digit t" "\<forall>c\<in>set ws. is_space c"
  shows "py_int (t @ ws) = Some (int (digits_val t))"
proof -
  obtain a r where t: "t = a # r" using assms(1) by (cases t) auto
  have a: "a \<noteq> 43 \<and> a \<noteq> 45" using assms(2) by (auto simp add: t is_digit_def)
  show ?thesis
    using int_body_ok_digits [OF assms(1,2)] filter_digits [OF assms(2)] a
    by (simp add: py_int_def strip_digits [OF assms] Let_def) (simp add: t)
qed

lemma match_digits_py_int:
  assumes "match_digits w"
  shows "\<exists>n. py_int w = Some (int n)"
proof (cases "w \<noteq> [] \<and> last w = 10")
  case True
  then have w: "w = butlast w @ [10]" by (metis append_butlast_last_id)
  from assms True have "butlast w \<noteq> []" "list_all is_digit (butlast w)"
    by (simp_all add: match_digits_def match_plus_def Let_def)
  then have "py_int (butlast w @ [10]) = Some (int (digits_val (butlast w)))"
    by (intro py_int_digits) (simp_all add: is_space_def)
  with w show ?thesis by metis
next
  case False
  with assms have "w \<noteq> []" "list_all is_digit w"
    by (auto simp add: match_digits_def match_plus_def Let_def split: if_splits)
  then have "py_int (w @ []) = Some (int (digits_val w))"
    by (intro py_int_digits) simp_all
  then show ?thesis by auto
qed

lemma store_weight_Inr: "\<exists>m'. store_weight m p w = Inr m'"
proof (cases "match_digits w")
  case True
  then obtain n where "py_int w = Some (int n)" using match_digits_py_int by blast
  with True show ?thesis
    by (simp add: store_weight_def split: option.splits)
next
  case False
  then show ?thesis
    by (simp add: store_weight_def split: option.splits)
qed

lemma store_weight_at:
  "store_weight m p w =
     Inr (case m p of
            None \<Rightarrow> m(p \<mapsto> w)
          | Some w0 \<Rightarrow>
              (case py_int w0 of
                 None \<Rightarrow> m(p \<mapsto> w)
               | Some e \<Rightarrow> if weight_of w > e then m(p \<mapsto> w) else m))"
proof (cases "match_digits w")
  case True
  then obtain n where "py_int w = Some (int n)" using match_digits_py_int by blast
  with True show ?thesis
    by (simp add: store_weight_def weight_of_def split: option.splits)
next
  case False
  then show ?thesis
    by (simp add: store_weight_def weight_of_def split: option.splits)
qed

lemma observed_strings_Cons:
  "observed_strings p (l # ls) =
     (case parse_weight_line l of
        None \<Rightarrow> observed_strings p ls
      | Some (q, w) \<Rightarrow> if q = p then w # observed_strings p ls else observed_strings p ls)"
  by (simp add: observed_strings_def split: option.splits)

lemma observed_strings_Nil: "observed_strings p [] = []"
  by (simp add: observed_strings_def)

lemma weights_loop_max:
  assumes "\<forall>w\<in>set (observed_strings p ls). match_digits w"
    and "\<forall>w. m p = Some w \<longrightarrow> match_digits w"
  shows "(weights_loop m ls p = None \<longrightarrow> m p = None \<and> observed_strings p ls = []) \<and>
         (\<forall>w. weights_loop m ls p = Some w \<longrightarrow>
            match_digits w \<and> (m p = Some w \<or> w \<in> set (observed_strings p ls)) \<and>
            (\<forall>u. m p = Some u \<or> u \<in> set (observed_strings p ls) \<longrightarrow> weight_of u \<le> weight_of w))"
  using assms
proof (induction ls arbitrary: m)
  case Nil
  then show ?case by (auto simp add: observed_strings_Nil)
next
  case (Cons l ls)
  show ?case
  proof (cases "parse_weight_line l")
    case None
    then have "weights_loop m (l # ls) = weights_loop m ls"
      by (simp add: weight_line_def)
    moreover have "observed_strings p (l # ls) = observed_strings p ls"
      by (simp add: observed_strings_Cons None)
    ultimately show ?thesis using Cons.IH [of m] Cons.prems by simp
  next
    case (Some qw)
    obtain q w where qw: "qw = (q, w)" by (cases qw)
    obtain m' where m': "store_weight m q w = Inr m'" using store_weight_Inr by blast
    have loop: "weights_loop m (l # ls) = weights_loop m' ls"
      by (simp add: weight_line_def Some qw m')
    show ?thesis
    proof (cases "q = p")
      case False
      have same: "m' p = m p"
        using m' False by (auto simp add: store_weight_at split: option.splits if_splits)
      have "observed_strings p (l # ls) = observed_strings p ls"
        by (simp add: observed_strings_Cons Some qw False)
      then show ?thesis using Cons.IH [of m'] Cons.prems same loop by simp
    next
      case True
      have obs: "observed_strings p (l # ls) = w # observed_strings p ls"
        by (simp add: observed_strings_Cons Some qw True)
      with Cons.prems have mw: "match_digits w" by simp
      show ?thesis
      proof (cases "m p")
        case None
        then have mp: "m' p = Some w" using m' True by (auto simp add: store_weight_at)
        have "\<forall>u. m' p = Some u \<longrightarrow> match_digits u" using mp mw by simp
        with Cons.IH [of m'] Cons.prems obs
        show ?thesis unfolding loop obs using mp None by auto
      next
        case (Some w0)
        with Cons.prems have m0: "match_digits w0" by simp
        then obtain n where n: "py_int w0 = Some (int n)" using match_digits_py_int by blast
        then have w0: "weight_of w0 = int n" using m0 by (simp add: weight_of_def)
        have mp: "m' p = (if weight_of w > weight_of w0 then Some w else Some w0)"
          using m' True Some n w0 by (auto simp add: store_weight_at)
        have "\<forall>u. m' p = Some u \<longrightarrow> match_digits u" using mp mw m0 by (simp split: if_splits)
        with Cons.IH [of m'] Cons.prems obs
        show ?thesis unfolding loop obs using mp Some
          by (auto split: if_splits; metis order_trans not_less linear)
      qed
    qed
  qed
qed


lemma set_map_filter: "set (List.map_filter f xs) = {y. \<exists>x\<in>set xs. f x = Some y}"
  by (induction xs) (auto split: option.splits)

lemma observed_values_numeric:
  assumes "\<forall>w\<in>set (observed_strings p ls). match_digits w"
  shows "set (observed_values p ls) = weight_of ` set (observed_strings p ls)"
proof -
  have "\<And>w. w \<in> set (observed_strings p ls) \<Longrightarrow> py_int w = Some (weight_of w)"
  proof -
    fix w assume "w \<in> set (observed_strings p ls)"
    with assms have "match_digits w" by simp
    then show "py_int w = Some (weight_of w)"
      using match_digits_py_int [of w] by (auto simp add: weight_of_def)
  qed
  then show ?thesis
    by (auto simp add: observed_values_def set_map_filter image_iff)
qed

lemma read_phrase_weights_max_aux:
  assumes "\<forall>w\<in>set (observed_strings p ls). match_digits w"
    and "observed_strings p ls \<noteq> []"
  shows "\<exists>w. read_phrase_weights (Some ls) p = Some w \<and> w \<in> set (observed_strings p ls) \<and>
             py_int w = Some (Max (set (observed_values p ls)))"
proof -
  note inv = weights_loop_max [of p ls Map.empty, OF assms(1)]
  from inv assms(2) obtain w where w: "weights_loop Map.empty ls p = Some w"
    by (cases "weights_loop Map.empty ls p") auto
  with inv have mem: "w \<in> set (observed_strings p ls)"
    and top: "\<forall>u\<in>set (observed_strings p ls). weight_of u \<le> weight_of w"
    and num: "match_digits w"
    by auto
  have "Max (weight_of ` set (observed_strings p ls)) = weight_of w"
    using mem top by (intro Max_eqI) auto
  moreover have "py_int w = Some (weight_of w)"
    using num match_digits_py_int [of w] by (auto simp add: weight_of_def)
  ultimately show ?thesis
    using w mem by (simp add: read_phrase_weights_def observed_values_numeric [OF assms(1)])
qed

lemma observed_strings_set:
  "set ls' = set ls \<Longrightarrow> set (observed_strings p ls') = set (observed_strings p ls)"
  by (simp add: observed_strings_def set_map_filter)

text \<open>
  C5, as the code has it. When every weight of a phrase in the weight table is a string
  of ASCII digits, there is such a weight, and no weight field of the table has more than
  640 characters (a length at which no conversion to an integer fails, whatever the limit
  of the interpreter), the weight stored for the phrase after the load is one of the
  weight strings seen for it, and its integer value is the maximum of the values seen.
  That value is the same for every reordering of the lines.
\<close>

theorem read_phrase_weights_max:
  assumes "\<forall>w\<in>set (observed_strings phrase lines). match_digits w"
    and "observed_strings phrase lines \<noteq> []"
    and "\<forall>raw\<in>set lines. \<forall>q w. parse_weight_line raw = Some (q, w) \<longrightarrow> length w \<le> 640"
  shows "(\<exists>w. read_phrase_weights (Some lines) phrase = Some w \<and>
              w \<in> set (observed_strings phrase lines) \<and>
              py_int w = Some (Max (set (observed_values phrase lines)))) \<and>
         (\<forall>lines'. mset lines' = mset lines \<longrightarrow>
              Option.bind (read_phrase_weights (Some lines') phrase) py_int =
              Option.bind (read_phrase_weights (Some lines) phrase) py_int)"
proof (intro conjI allI impI)
  show "\<exists>w. read_phrase_weights (Some lines) phrase = Some w \<and>
             w \<in> set (observed_strings phrase lines) \<and>
             py_int w = Some (Max (set (observed_values phrase lines)))"
    using assms(1,2) by (rule read_phrase_weights_max_aux)
next
  fix lines' :: "ustr list"
  assume "mset lines' = mset lines"
  then have s: "set lines' = set lines" by (rule mset_eq_setD)
  have os: "set (observed_strings phrase lines') = set (observed_strings phrase lines)"
    using s by (rule observed_strings_set)
  have a1: "\<forall>w\<in>set (observed_strings phrase lines'). match_digits w"
    using assms(1) os by simp
  have a2: "observed_strings phrase lines' \<noteq> []"
    using assms(2) os by (metis set_empty)
  have ov: "set (observed_values phrase lines') = set (observed_values phrase lines)"
    by (simp add: observed_values_numeric [OF a1] observed_values_numeric [OF assms(1)] os)
  from read_phrase_weights_max_aux [OF a1 a2] read_phrase_weights_max_aux [OF assms(1,2)] ov
  show "Option.bind (read_phrase_weights (Some lines') phrase) py_int =
        Option.bind (read_phrase_weights (Some lines) phrase) py_int"
    by auto
qed

lemma entry_weight_malformed:
  "\<not> match_digits w \<Longrightarrow> entry_weight (m(p \<mapsto> w)) p = DEFAULT_WEIGHT"
  by (simp add: entry_weight_def)

text \<open>
  C4, as the code has it. A line whose weight field is not all digits counts as 0 in the
  comparison, and the string itself is what is stored: for a phrase with no stored weight
  the malformed string becomes its stored weight (and an entry of that phrase is later
  written with the default weight), and for a phrase whose stored weight is all digits
  the line changes nothing.
\<close>

theorem malformed_weight_kept:
  "parse_weight_line raw = Some (phrase, weight_str) \<and> \<not> match_digits weight_str \<longrightarrow>
     (m phrase = None \<longrightarrow>
        weight_line m raw = Inr (m(phrase \<mapsto> weight_str)) \<and>
        entry_weight (m(phrase \<mapsto> weight_str)) phrase = DEFAULT_WEIGHT) \<and>
     (\<forall>stored. m phrase = Some stored \<and> match_digits stored \<longrightarrow> weight_line m raw = Inr m)"
proof (intro impI conjI allI)
  assume a: "parse_weight_line raw = Some (phrase, weight_str) \<and> \<not> match_digits weight_str"
  then have w0: "weight_of weight_str = 0" by (simp add: weight_of_def)
  { assume "m phrase = None"
    with a show "weight_line m raw = Inr (m(phrase \<mapsto> weight_str))"
      by (simp add: weight_line_def store_weight_at) }
  { show "entry_weight (m(phrase \<mapsto> weight_str)) phrase = DEFAULT_WEIGHT"
      using a by (simp add: entry_weight_malformed) }
  { fix stored assume s: "m phrase = Some stored \<and> match_digits stored"
    then obtain n where "py_int stored = Some (int n)" using match_digits_py_int by blast
    with a s w0 show "weight_line m raw = Inr m"
      by (simp add: weight_line_def store_weight_at) }
qed


text \<open>The definitions that evaluate the string functions on a literal.\<close>

lemmas str_eval = ustr_def strip_def is_space_def is_digit_def match_digits_def match_plus_def
  py_int_def digits_val_def Let_def


text \<open>
  C5 at the table with the weights 5 and then 9 for the phrase U+6253: the stored value is
  9, and it is 9 for the reverse order too.
\<close>

theorem read_phrase_weights_max_witness:
  "Option.bind (read_phrase_weights (Some [[25171, 9, 53], [25171, 9, 57]]) [25171]) py_int = Some 9 \<and>
   Option.bind (read_phrase_weights (Some [[25171, 9, 57], [25171, 9, 53]]) [25171]) py_int = Some 9"
proof -
  let ?ls = "[[25171, 9, 53], [25171, 9, 57]] :: ustr list"
  have os: "observed_strings [25171] ?ls = [[53], [57]]"
    by (simp add: observed_strings_def parse_weight_line_def str_eval)
  have h1: "\<forall>w\<in>set (observed_strings [25171] ?ls). match_digits w"
    unfolding os by (simp add: str_eval)
  have h2: "observed_strings [25171] ?ls \<noteq> []"
    unfolding os by simp
  have ov: "observed_values [25171] ?ls = [5, 9]"
    unfolding observed_values_def os by (simp add: str_eval)
  have h3: "\<forall>raw\<in>set ?ls. \<forall>q w. parse_weight_line raw = Some (q, w) \<longrightarrow> length w \<le> 640"
    by (simp add: parse_weight_line_def str_eval)
  note t = read_phrase_weights_max [OF h1 h2 h3]
  from t obtain w where "read_phrase_weights (Some ?ls) [25171] = Some w"
    and "py_int w = Some (Max (set (observed_values [25171] ?ls)))"
    by blast
  then have a: "Option.bind (read_phrase_weights (Some ?ls) [25171]) py_int = Some 9"
    unfolding ov by simp
  have "mset [[25171, 9, 57], [25171, 9, 53]] = mset ?ls"
    by (simp add: add_mset_commute)
  with t have "Option.bind (read_phrase_weights (Some [[25171, 9, 57], [25171, 9, 53]]) [25171]) py_int =
               Option.bind (read_phrase_weights (Some ?ls) [25171]) py_int"
    by blast
  with a show ?thesis by simp
qed

text \<open>
  C5 as stated fails for the stored string: of the weights \<^verbatim>\<open>07\<close> and \<^verbatim>\<open>7\<close> of one
  phrase, equal as integers, the one read first is the one stored, so the stored string
  depends on the order of the lines.
\<close>

theorem read_phrase_weights_order_dependent:
  "read_phrase_weights (Some [[25171, 9] @ ustr ''07'', [25171, 9] @ ustr ''7'']) [25171] =
     Some (ustr ''07'') \<and>
   read_phrase_weights (Some [[25171, 9] @ ustr ''7'', [25171, 9] @ ustr ''07'']) [25171] =
     Some (ustr ''7'') \<and>
   ustr ''07'' \<noteq> ustr ''7''"
  by (simp add: read_phrase_weights_def weight_line_def store_weight_def parse_weight_line_def
      str_eval)

text \<open>
  C4 at the line of the phrase U+6253 with the weight \<^verbatim>\<open>abc\<close>, on the empty table and on a
  table that holds the weight 5 for the phrase.
\<close>

theorem malformed_weight_kept_witness:
  "weight_line Map.empty ([25171, 9] @ ustr ''abc'') = Inr (Map.empty([25171] \<mapsto> ustr ''abc'')) \<and>
   entry_weight (Map.empty([25171] \<mapsto> ustr ''abc'')) [25171] = ustr ''100'' \<and>
   weight_line (Map.empty([25171] \<mapsto> ustr ''5'')) ([25171, 9] @ ustr ''abc'') =
     Inr (Map.empty([25171] \<mapsto> ustr ''5''))"
proof -
  have p: "parse_weight_line ([25171, 9] @ ustr ''abc'') = Some ([25171], ustr ''abc'')"
    by (simp add: parse_weight_line_def str_eval)
  have n: "\<not> match_digits (ustr ''abc'')"
    by (simp add: str_eval)
  have d: "match_digits (ustr ''5'')"
    by (simp add: str_eval)
  from malformed_weight_kept [of "[25171, 9] @ ustr ''abc''" "[25171]" "ustr ''abc''" Map.empty]
    malformed_weight_kept [of "[25171, 9] @ ustr ''abc''" "[25171]" "ustr ''abc''"
      "Map.empty([25171] \<mapsto> ustr ''5'')"]
    p n d
  show ?thesis by (simp add: DEFAULT_WEIGHT_def)
qed

text \<open>
  C4 as stated fails: after the load of the single line of the phrase U+6253 with the
  weight \<^verbatim>\<open>abc\<close>, the stored weight of the phrase is \<^verbatim>\<open>abc\<close>, not \<^verbatim>\<open>0\<close>.
\<close>

theorem malformed_weight_not_zero:
  "read_phrase_weights (Some [[25171, 9] @ ustr ''abc'']) [25171] = Some (ustr ''abc'') \<and>
   ustr ''abc'' \<noteq> ustr ''0''"
  by (simp add: read_phrase_weights_def weight_line_def store_weight_def parse_weight_line_def
      str_eval)

section \<open>Properties of the pipeline and of batch mode\<close>

lemma generate_wubi_code_nonempty:
  "phrase \<noteq> [] \<Longrightarrow> \<exists>code. generate_wubi_code pinyin phrase tbl rule = Inr code"
  by (auto simp add: generate_wubi_code_def rule_standard_wubi_def rule_one_code_per_char_def
      rule_first_two_chars_two_codes_rest_one_def rule_all_two_codes_def rule_free_coding_def
      rule_wubi_pinyin_initials_def Let_def)

lemma check_all_chars_exist_nonempty:
  "check_all_chars_exist phrase tbl \<Longrightarrow> extract_chinese_chars phrase \<noteq> []"
  by (auto simp add: check_all_chars_exist_def Let_def split: if_splits)

text \<open>
  C3, as the code has it. A phrase without a Chinese character that is not yet in the
  dictionary is rejected under every rule other than 5 and 6 as a phrase with uncoded
  characters: \<^verbatim>\<open>check_all_chars_exist\<close> is false on it, so the later test for an empty
  stripped phrase is not reached. Under rule 6 it is rejected as a phrase without codeable
  characters. Nothing is written in either case.
\<close>

theorem no_chinese_chars_outcome:
  "phrase \<notin> existing_phrases s \<and> extract_chinese_chars phrase = [] \<longrightarrow>
     (rule \<noteq> 5 \<and> rule \<noteq> 6 \<longrightarrow>
        interactive_single_input pinyin phrase rule tbl wts s = (Rejected_UncodeableChars, s)) \<and>
     (rule = 6 \<longrightarrow>
        interactive_single_input pinyin phrase rule tbl wts s = (Rejected_NoCodeableChars, s))"
  by (simp add: interactive_single_input_def check_all_chars_exist_def)

text \<open>
  C3 at the phrase \<^verbatim>\<open>abc\<close>, under rule 2 and under rule 6.
\<close>

theorem no_chinese_chars_outcome_witness:
  "interactive_single_input (\<lambda>cs. None) (ustr ''abc'') 2 Map.empty Map.empty
     \<lparr>dict_file = [], fail_file = [], dict_writable = True, fail_writable = True,
      existing_phrases = {}, stdin = []\<rparr> =
     (Rejected_UncodeableChars,
      \<lparr>dict_file = [], fail_file = [], dict_writable = True, fail_writable = True,
       existing_phrases = {}, stdin = []\<rparr>) \<and>
   interactive_single_input (\<lambda>cs. None) (ustr ''abc'') 6 Map.empty Map.empty
     \<lparr>dict_file = [], fail_file = [], dict_writable = True, fail_writable = True,
      existing_phrases = {}, stdin = []\<rparr> =
     (Rejected_NoCodeableChars,
      \<lparr>dict_file = [], fail_file = [], dict_writable = True, fail_writable = True,
       existing_phrases = {}, stdin = []\<rparr>)"
  using no_chinese_chars_outcome [of "ustr ''abc''"
      "\<lparr>dict_file = [], fail_file = [], dict_writable = True, fail_writable = True,
        existing_phrases = {}, stdin = []\<rparr>" 2 "\<lambda>cs. None" Map.empty Map.empty]
    no_chinese_chars_outcome [of "ustr ''abc''"
      "\<lparr>dict_file = [], fail_file = [], dict_writable = True, fail_writable = True,
        existing_phrases = {}, stdin = []\<rparr>" 6 "\<lambda>cs. None" Map.empty Map.empty]
  by (simp add: extract_chinese_chars_def is_chinese_def ustr_def)

text \<open>
  C3 as stated fails: under rule 1 the phrase \<^verbatim>\<open>abc\<close>, which has no Chinese character,
  gets the outcome for uncoded characters, not the one for no codeable characters.
\<close>

theorem no_chinese_chars_not_no_codeable:
  "fst (interactive_single_input (\<lambda>cs. None) (ustr ''abc'') 1 Map.empty Map.empty
     \<lparr>dict_file = [], fail_file = [], dict_writable = True, fail_writable = True,
      existing_phrases = {}, stdin = []\<rparr>) = Rejected_UncodeableChars \<and>
   Rejected_UncodeableChars \<noteq> Rejected_NoCodeableChars"
  by (simp add: interactive_single_input_def check_all_chars_exist_def extract_chinese_chars_def
      is_chinese_def ustr_def)

text \<open>
  The lines of a text with the three kinds of line end, an empty line and a last line
  without a newline.
\<close>

lemma file_lines_example:
  "file_lines (ustr ''a'' @ [13] @ ustr ''b'' @ [13, 10] @ ustr ''c'' @ [10, 10] @ ustr ''d'') =
     [ustr ''a'', ustr ''b'', ustr ''c'', [], ustr ''d'']"
  by (simp add: file_lines_def ustr_def)
















lemma interactive_single_input_fail_file:
  "fail_file (snd (interactive_single_input pinyin phrase rule tbl wts s)) = fail_file s"
  by (auto simp add: interactive_single_input_def Let_def
      split: if_splits prod.splits sum.splits)

text \<open>
  C7. With rule 5, \<^verbatim>\<open>file_batch_mode\<close> leaves at once with the message that the rule has no
  batch mode: whatever the input file, the counts returned are 0 and 0 and the dictionary
  and the fail file are unchanged.
\<close>

theorem file_batch_mode_rule5:
  "file_batch_mode pinyin 5 tbl wts input_file record_ok fs = ((Rule5_Unsupported, 0, 0), fs)"
  by (simp add: file_batch_mode_def)


text \<open>The definitions that evaluate the pipeline on a literal.\<close>

lemmas pipeline_eval = interactive_single_input_def check_all_chars_exist_def
  extract_chinese_chars_def is_chinese_def generate_wubi_code_def rule_standard_wubi_def
  entry_weight_def DEFAULT_WEIGHT_def entry_line_def lower_def lower_cp_def



lemma write_fail_fail_file:
  "fail_writable st \<Longrightarrow>
   fail_file (write_fail line reason st) = fail_file st @ line @ [10] \<and>
   dict_file (write_fail line reason st) = dict_file st \<and>
   fail_records (write_fail line reason st) = fail_records st @ [(line, reason)]"
  by (simp add: write_fail_def)

text \<open>
  C2, as the code has it. In batch mode a line that is neither in the dictionary nor in
  the fail file already, and that fails validation (no Chinese character under rule 6,
  \<^verbatim>\<open>check_all_chars_exist\<close> false under the other rules), is appended to the fail file, when
  the fail file can be written. So is a line that passes validation when the dictionary
  cannot be written: the write error is recorded in the fail file with its own reason.
  The pipeline for a single phrase, where alone a user can cancel, never changes the fail
  file, whatever its outcome.
\<close>

theorem batch_fail_file_routing:
  "(strip raw \<noteq> [] \<and> strip raw \<notin> existing_phrases st \<and>
    strip raw \<notin> existing_fail_phrases st \<and> fail_writable st \<longrightarrow>
     ((rule = 6 \<and> extract_chinese_chars (strip raw) = [] \<or>
       rule \<noteq> 6 \<and> \<not> check_all_chars_exist (strip raw) tbl) \<longrightarrow>
        (\<exists>st'. batch_item pinyin rule tbl wts raw st = Inr st' \<and>
               fail_file st' = fail_file st @ strip raw @ [10] \<and> dict_file st' = dict_file st)) \<and>
     (\<not> (rule = 6 \<and> extract_chinese_chars (strip raw) = [] \<or>
         rule \<noteq> 6 \<and> \<not> check_all_chars_exist (strip raw) tbl) \<and> \<not> dict_writable st \<longrightarrow>
        (\<exists>st'. batch_item pinyin rule tbl wts raw st = Inr st' \<and>
               fail_file st' = fail_file st @ strip raw @ [10] \<and> dict_file st' = dict_file st \<and>
               fail_records st' = fail_records st @ [(strip raw, File_Write_Error)]))) \<and>
   fail_file (snd (interactive_single_input pinyin' phrase rule' tbl' wts' s)) = fail_file s"
proof (intro impI conjI)
  assume a: "strip raw \<noteq> [] \<and> strip raw \<notin> existing_phrases st \<and>
             strip raw \<notin> existing_fail_phrases st \<and> fail_writable st"
  let ?st = "st\<lparr>total_lines := total_lines st + 1\<rparr>"
  have fw: "fail_writable ?st" using a by simp
  note wf = write_fail_fail_file [OF fw]
  { assume "rule = 6 \<and> extract_chinese_chars (strip raw) = [] \<or>
            rule \<noteq> 6 \<and> \<not> check_all_chars_exist (strip raw) tbl"
    then show "\<exists>st'. batch_item pinyin rule tbl wts raw st = Inr st' \<and>
               fail_file st' = fail_file st @ strip raw @ [10] \<and> dict_file st' = dict_file st"
      using a wf by (auto simp add: batch_item_def Let_def) }
  { assume v: "\<not> (rule = 6 \<and> extract_chinese_chars (strip raw) = [] \<or>
                  rule \<noteq> 6 \<and> \<not> check_all_chars_exist (strip raw) tbl) \<and> \<not> dict_writable st"
    then have ne: "extract_chinese_chars (strip raw) \<noteq> []"
      using check_all_chars_exist_nonempty by blast
    then obtain code where
      "generate_wubi_code pinyin (extract_chinese_chars (strip raw)) tbl rule = Inr code"
      using generate_wubi_code_nonempty by blast
    then show "\<exists>st'. batch_item pinyin rule tbl wts raw st = Inr st' \<and>
               fail_file st' = fail_file st @ strip raw @ [10] \<and> dict_file st' = dict_file st \<and>
               fail_records st' = fail_records st @ [(strip raw, File_Write_Error)]"
      using a v ne wf by (auto simp add: batch_item_def Let_def) }
next
  show "fail_file (snd (interactive_single_input pinyin' phrase rule' tbl' wts' s)) = fail_file s"
    by (rule interactive_single_input_fail_file)
qed

text \<open>The definitions that evaluate a batch run on a literal.\<close>

lemmas batch_eval = file_batch_mode_def batch_item_def write_fail_def read_existing_entries_def
  clean_output_file_def file_lines_def

text \<open>
  C2 as stated fails: a batch run on one valid phrase with a dictionary that cannot be
  written ends with the phrase in the fail file.
\<close>

theorem write_error_in_fail_file:
  "file_batch_mode (\<lambda>cs. None) 1 (Map.empty([25171] \<mapsto> ustr ''rnb'')) Map.empty
     (Some [[25171]]) True
     \<lparr>dict_file = [], fail_file = [], dict_writable = False, fail_writable = True\<rparr> =
     ((Completed, 0, 1),
      \<lparr>dict_file = [], fail_file = [25171, 10], dict_writable = False, fail_writable = True\<rparr>)"
  by (simp add: batch_eval pipeline_eval str_eval)

text \<open>
  C2 at a table with one character: a line with an uncoded character, a line whose
  dictionary write fails, and a prompt of rule 5 that the user cancels.
\<close>

theorem batch_fail_file_routing_witness:
  "(\<exists>st'. batch_item (\<lambda>cs. None) 1 (Map.empty([25171] \<mapsto> ustr ''rnb'')) Map.empty [25172]
      \<lparr>dict_file = [], fail_file = [], dict_writable = True, fail_writable = True,
       existing_phrases = {}, existing_fail_phrases = {}, total_lines = 0, added_count = 0,
       fail_count = 0, skipped_count = 0, success_records = [], fail_records = []\<rparr> = Inr st' \<and>
      fail_file st' = [25172, 10]) \<and>
   (\<exists>st'. batch_item (\<lambda>cs. None) 1 (Map.empty([25171] \<mapsto> ustr ''rnb'')) Map.empty [25171]
      \<lparr>dict_file = [], fail_file = [], dict_writable = False, fail_writable = True,
       existing_phrases = {}, existing_fail_phrases = {}, total_lines = 0, added_count = 0,
       fail_count = 0, skipped_count = 0, success_records = [], fail_records = []\<rparr> = Inr st' \<and>
      fail_file st' = [25171, 10] \<and> fail_records st' = [([25171], File_Write_Error)]) \<and>
   interactive_single_input (\<lambda>cs. None) [25171] 5 Map.empty Map.empty
      \<lparr>dict_file = [], fail_file = [], dict_writable = True, fail_writable = True,
       existing_phrases = {}, stdin = [CtrlC]\<rparr> =
     (Rejected_UserCancelled,
      \<lparr>dict_file = [], fail_file = [], dict_writable = True, fail_writable = True,
       existing_phrases = {}, stdin = []\<rparr>) \<and>
   fail_file (snd (interactive_single_input (\<lambda>cs. None) [25171] 5 Map.empty Map.empty
      \<lparr>dict_file = [], fail_file = [], dict_writable = True, fail_writable = True,
       existing_phrases = {}, stdin = [CtrlC]\<rparr>)) = []"
proof -
  let ?tbl = "Map.empty([25171] \<mapsto> ustr ''rnb'')"
  let ?a = "\<lparr>dict_file = [], fail_file = [], dict_writable = True, fail_writable = True,
       existing_phrases = {}, existing_fail_phrases = {}, total_lines = 0, added_count = 0,
       fail_count = 0, skipped_count = 0, success_records = [], fail_records = []\<rparr>"
  let ?b = "\<lparr>dict_file = [], fail_file = [], dict_writable = False, fail_writable = True,
       existing_phrases = {}, existing_fail_phrases = {}, total_lines = 0, added_count = 0,
       fail_count = 0, skipped_count = 0, success_records = [], fail_records = []\<rparr>"
  let ?s = "\<lparr>dict_file = [], fail_file = [], dict_writable = True, fail_writable = True,
       existing_phrases = {}, stdin = [CtrlC]\<rparr>"
  have s1: "strip [25172] = [25172]" and s2: "strip [25171] = [25171]"
    by (simp_all add: str_eval)
  have c1: "\<not> check_all_chars_exist [25172] ?tbl" and c2: "check_all_chars_exist [25171] ?tbl"
    by (simp_all add: pipeline_eval)
  have u: "interactive_single_input (\<lambda>cs. None) [25171] 5 Map.empty Map.empty ?s =
     (Rejected_UserCancelled,
      \<lparr>dict_file = [], fail_file = [], dict_writable = True, fail_writable = True,
       existing_phrases = {}, stdin = []\<rparr>)"
    by (simp add: interactive_single_input_def)
  from batch_fail_file_routing [of "[25172]" ?a 1 ?tbl "\<lambda>cs. None" Map.empty
      "\<lambda>cs. None" "[25171]" 5 Map.empty Map.empty ?s]
    batch_fail_file_routing [of "[25171]" ?b 1 ?tbl "\<lambda>cs. None" Map.empty
      "\<lambda>cs. None" "[25171]" 5 Map.empty Map.empty ?s]
    c1 c2 u
  show ?thesis unfolding s1 s2 by auto
qed

text \<open>
  C7 at an input file of two lines.
\<close>

theorem file_batch_mode_rule5_witness:
  "file_batch_mode (\<lambda>cs. None) 5 (Map.empty([25171] \<mapsto> ustr ''rnb'')) Map.empty
     (Some [[25171], [25172]]) True
     \<lparr>dict_file = [], fail_file = [], dict_writable = True, fail_writable = True\<rparr> =
     ((Rule5_Unsupported, 0, 0),
      \<lparr>dict_file = [], fail_file = [], dict_writable = True, fail_writable = True\<rparr>)"
  using file_batch_mode_rule5 [of "\<lambda>cs. None" "Map.empty([25171] \<mapsto> ustr ''rnb'')" Map.empty
      "Some [[25171], [25172]]" True
      "\<lparr>dict_file = [], fail_file = [], dict_writable = True, fail_writable = True\<rparr>"]
  by simp

text \<open>
  A batch run with the files writable: the first line is added, the second goes to the
  fail file, the third is skipped as a duplicate of the first.
\<close>

lemma batch_example_normal:
  "file_batch_mode (\<lambda>cs. None) 1 (Map.empty([25171] \<mapsto> ustr ''rnb'')) Map.empty
     (Some [[25171], [25172], [25171]]) True
     \<lparr>dict_file = [], fail_file = [], dict_writable = True, fail_writable = True\<rparr> =
     ((Completed, 1, 1),
      \<lparr>dict_file = [25171, 9] @ ustr ''rnb'' @ [9] @ ustr ''100'' @ [10], fail_file = [25172, 10],
       dict_writable = True, fail_writable = True\<rparr>)"
  by (simp add: batch_eval pipeline_eval str_eval)

end
